theory Spec2Isabelle
  imports Main "HOL-Library.Sublist"
begin

section \<open>Values exchanged with the remote API\<close>

text \<open>
  Payloads (Task, TaskComment, Label, ...) are opaque serialisable records for the
  client; they are modelled as JSON values. Object members are kept in insertion order,
  each name once, and numbers are integers.
\<close>

datatype json =
    JNull
  | JBool bool
  | JNum int
  | JStr string
  | JArr "json list"
  | JObj "(string \<times> json) list"

text \<open>
  Template literals such as \<^verbatim>\<open>`/tasks/${taskId}`\<close> print a numeric identifier in
  decimal. Identifiers are natural numbers, small enough for JavaScript to print every
  digit.
\<close>

fun show_nat :: "nat \<Rightarrow> string" where
  "show_nat n =
     (if n < 10 then [''0123456789'' ! n]
      else show_nat (n div 10) @ [''0123456789'' ! (n mod 10)])"

declare show_nat.simps [simp del]

text \<open>
  The token of a client instance is a JavaScript value that is a string or absent.
  \<^verbatim>\<open>this.token || ''\<close> and \<^verbatim>\<open>if (this.token)\<close> test its truthiness;
  \<^verbatim>\<open>`Bearer ${this.token}`\<close> prints it.
\<close>

datatype js_token = Undefined | Null | Str string

fun truthy :: "js_token \<Rightarrow> bool" where
  "truthy (Str s) = (s \<noteq> [])"
| "truthy _ = False"

fun or_empty :: "js_token \<Rightarrow> string" where
  "or_empty (Str s) = s"
| "or_empty _ = []"

fun interpolate :: "js_token \<Rightarrow> string" where
  "interpolate (Str s) = s"
| "interpolate Undefined = ''undefined''"
| "interpolate Null = ''null''"

record service =
  baseUrl :: string
  token :: js_token

section \<open>The error hierarchy\<close>

text \<open>
  The classes imported from \<^verbatim>\<open>core/service.js\<close>. VikunjaError is the base class,
  VikunjaAuthenticationError extends it, and the label and assignee errors extend
  VikunjaAuthenticationError; any other subclass of VikunjaError answers the tests of this
  module as VikunjaError does and is not told apart from it. Each carries message,
  endpoint, method (the field \<open>emethod\<close>), statusCode and the raw response body. A
  thrown value that is not a VikunjaError is kept with its message, the only property this
  module reads from it.
\<close>

datatype error_class =
    VikunjaError
  | VikunjaAuthenticationError
  | LabelAuthenticationError
  | AssigneeAuthenticationError

record vikunja_error =
  cls :: error_class
  message :: string
  endpoint :: string
  emethod :: string
  statusCode :: nat
  response :: "json option"

datatype thrown = VErr vikunja_error | JsError string

fun is_VikunjaError :: "thrown \<Rightarrow> bool" where
  "is_VikunjaError (VErr e) = True"
| "is_VikunjaError (JsError m) = False"

fun is_VikunjaAuthenticationError :: "thrown \<Rightarrow> bool" where
  "is_VikunjaAuthenticationError (VErr e) = (cls e \<noteq> VikunjaError)"
| "is_VikunjaAuthenticationError (JsError m) = False"

fun statusCode_of :: "thrown \<Rightarrow> nat option" where
  "statusCode_of (VErr e) = Some (statusCode e)"
| "statusCode_of (JsError m) = None"

fun message_of :: "thrown \<Rightarrow> string" where
  "message_of (VErr e) = message e"
| "message_of (JsError m) = m"

section \<open>The shared request primitive\<close>

datatype http_method = GET | PUT | POST | DELETE

datatype pvalue = PStr string | PNum int | PBool bool | PUndefined

record options =
  params :: "(string \<times> pvalue) list option"
  headers :: "(string \<times> string) list option"
  responseType :: "string option"

record request_call =
  rpath :: string
  rmethod :: http_method
  rbody :: "json option"
  roptions :: "options option"

text \<open>
  \<^verbatim>\<open>this.request(path, method, body?, options?)\<close> is inherited from VikunjaService and
  is an external collaborator of this module. It is a parameter of the model: a function
  that gives the outcome of a call from the calls issued before it and the call itself.
  Every call is one network request; the calls are recorded in the order they are issued.
\<close>

type_synonym 'r primitive = "request_call list \<Rightarrow> request_call \<Rightarrow> thrown + 'r"

type_synonym 'r io = "request_call list \<Rightarrow> (thrown + 'r) \<times> request_call list"

definition request ::
  "'r primitive \<Rightarrow> string \<Rightarrow> http_method \<Rightarrow> json option \<Rightarrow> options option \<Rightarrow> 'r io" where
  "request srv p m b opts log =
     (let c = \<lparr>rpath = p, rmethod = m, rbody = b, roptions = opts\<rparr>
      in (srv log c, log @ [c]))"

definition throw :: "thrown \<Rightarrow> 'r io" where
  "throw e log = (Inl e, log)"

definition try_catch :: "'r io \<Rightarrow> (thrown \<Rightarrow> 'r io) \<Rightarrow> 'r io" where
  "try_catch body handler log =
     (case body log of
        (Inl e, log') \<Rightarrow> handler e log'
      | (Inr v, log') \<Rightarrow> (Inr v, log'))"

definition only_headers :: "(string \<times> string) list \<Rightarrow> options option" where
  "only_headers hs = Some \<lparr>params = None, headers = Some hs, responseType = None\<rparr>"

definition only_params :: "(string \<times> pvalue) list option \<Rightarrow> options option" where
  "only_params ps = Some \<lparr>params = ps, headers = None, responseType = None\<rparr>"

definition assignee_message :: "string \<Rightarrow> string" where
  "assignee_message original =
     ''Assignee operation failed due to authentication issue. '' @
     ''This may occur even with valid tokens. '' @
     ''Original error: '' @ original"

definition label_message :: "string \<Rightarrow> string" where
  "label_message original =
     ''Label operation failed due to authentication issue. '' @
     ''This may occur even with valid tokens. '' @
     ''Original error: '' @ original"

text \<open>
  \<^verbatim>\<open>new AssigneeAuthenticationError(msg, e.endpoint, e.method, e.statusCode, e.response)\<close>
  and its label counterpart, built from a caught VikunjaError.
\<close>

fun new_AssigneeAuthenticationError :: "thrown \<Rightarrow> thrown" where
  "new_AssigneeAuthenticationError (VErr e) =
     VErr \<lparr>cls = AssigneeAuthenticationError, message = assignee_message (message e),
       endpoint = endpoint e, emethod = emethod e, statusCode = statusCode e,
       response = response e\<rparr>"
| "new_AssigneeAuthenticationError (JsError m) = JsError m"

fun new_LabelAuthenticationError :: "thrown \<Rightarrow> thrown" where
  "new_LabelAuthenticationError (VErr e) =
     VErr \<lparr>cls = LabelAuthenticationError, message = label_message (message e),
       endpoint = endpoint e, emethod = emethod e, statusCode = statusCode e,
       response = response e\<rparr>"
| "new_LabelAuthenticationError (JsError m) = JsError m"

section \<open>Retried operations of TaskService\<close>

definition assignUserToTask :: "'r primitive \<Rightarrow> service \<Rightarrow> nat \<Rightarrow> nat \<Rightarrow> 'r io" where
  "assignUserToTask srv svc taskId userId =
     try_catch
       (request srv (''/tasks/'' @ show_nat taskId @ ''/assignees'') PUT
          (Some (JObj [(''user_id'', JNum (int userId))])) None)
       (\<lambda>error.
          if is_VikunjaError error \<and>
             (statusCode_of error = Some 401 \<or> statusCode_of error = Some 403)
          then
            try_catch
              (request srv (''/tasks/'' @ show_nat taskId @ ''/assignees'') PUT
                 (Some (JObj [(''user_id'', JNum (int userId))]))
                 (only_headers [(''X-API-Token'', or_empty (token svc))]))
              (\<lambda>retryError.
                 if is_VikunjaError retryError \<and>
                    (statusCode_of retryError = Some 401 \<or> statusCode_of retryError = Some 403)
                 then
                   try_catch
                     (request srv (''/tasks/'' @ show_nat taskId @ ''/assignees'') PUT
                        (Some (JObj [(''user_id'', JNum (int userId))]))
                        (only_headers
                           [(''authorization'', ''Bearer '' @ interpolate (token svc))]))
                     (\<lambda>finalError.
                        if is_VikunjaAuthenticationError finalError
                        then throw (new_AssigneeAuthenticationError finalError)
                        else throw finalError)
                 else throw retryError)
          else throw error)"

definition bulkAssignUsersToTask :: "'r primitive \<Rightarrow> service \<Rightarrow> nat \<Rightarrow> json \<Rightarrow> 'r io" where
  "bulkAssignUsersToTask srv svc taskId assignees =
     try_catch
       (request srv (''/tasks/'' @ show_nat taskId @ ''/assignees/bulk'') POST
          (Some assignees) None)
       (\<lambda>error.
          if is_VikunjaError error \<and>
             (statusCode_of error = Some 401 \<or> statusCode_of error = Some 403)
          then
            try_catch
              (request srv (''/tasks/'' @ show_nat taskId @ ''/assignees/bulk'') POST
                 (Some assignees)
                 (only_headers [(''X-API-Token'', or_empty (token svc))]))
              (\<lambda>retryError.
                 if is_VikunjaError retryError \<and>
                    (statusCode_of retryError = Some 401 \<or> statusCode_of retryError = Some 403)
                 then
                   try_catch
                     (request srv (''/tasks/'' @ show_nat taskId @ ''/assignees/bulk'') POST
                        (Some assignees)
                        (only_headers
                           [(''authorization'', ''Bearer '' @ interpolate (token svc))]))
                     (\<lambda>finalError.
                        if is_VikunjaAuthenticationError finalError
                        then throw (new_AssigneeAuthenticationError finalError)
                        else throw finalError)
                 else throw retryError)
          else throw error)"

definition removeUserFromTask :: "'r primitive \<Rightarrow> service \<Rightarrow> nat \<Rightarrow> nat \<Rightarrow> 'r io" where
  "removeUserFromTask srv svc taskId userId =
     try_catch
       (request srv (''/tasks/'' @ show_nat taskId @ ''/assignees/'' @ show_nat userId) DELETE
          None None)
       (\<lambda>error.
          if is_VikunjaError error \<and>
             (statusCode_of error = Some 401 \<or> statusCode_of error = Some 403)
          then
            try_catch
              (request srv (''/tasks/'' @ show_nat taskId @ ''/assignees/'' @ show_nat userId)
                 DELETE None
                 (only_headers [(''X-API-Token'', or_empty (token svc))]))
              (\<lambda>retryError.
                 if is_VikunjaError retryError \<and>
                    (statusCode_of retryError = Some 401 \<or> statusCode_of retryError = Some 403)
                 then
                   try_catch
                     (request srv
                        (''/tasks/'' @ show_nat taskId @ ''/assignees/'' @ show_nat userId)
                        DELETE None
                        (only_headers
                           [(''authorization'', ''Bearer '' @ interpolate (token svc))]))
                     (\<lambda>finalError.
                        if is_VikunjaAuthenticationError finalError
                        then throw (new_AssigneeAuthenticationError finalError)
                        else throw finalError)
                 else throw retryError)
          else throw error)"

definition updateTaskLabels :: "'r primitive \<Rightarrow> service \<Rightarrow> nat \<Rightarrow> json \<Rightarrow> 'r io" where
  "updateTaskLabels srv svc taskId labels =
     try_catch
       (request srv (''/tasks/'' @ show_nat taskId @ ''/labels/bulk'') POST
          (Some labels) None)
       (\<lambda>error.
          if is_VikunjaError error \<and>
             (statusCode_of error = Some 401 \<or> statusCode_of error = Some 403)
          then
            try_catch
              (request srv (''/tasks/'' @ show_nat taskId @ ''/labels/bulk'') POST
                 (Some labels)
                 (only_headers [(''X-API-Token'', or_empty (token svc))]))
              (\<lambda>retryError.
                 if is_VikunjaError retryError \<and>
                    (statusCode_of retryError = Some 401 \<or> statusCode_of retryError = Some 403)
                 then
                   try_catch
                     (request srv (''/tasks/'' @ show_nat taskId @ ''/labels/bulk'') POST
                        (Some labels)
                        (only_headers
                           [(''authorization'', ''Bearer '' @ interpolate (token svc))]))
                     (\<lambda>finalError.
                        if is_VikunjaAuthenticationError finalError
                        then throw (new_LabelAuthenticationError finalError)
                        else throw finalError)
                 else throw retryError)
          else throw error)"

definition addLabelToTask :: "'r primitive \<Rightarrow> service \<Rightarrow> nat \<Rightarrow> json \<Rightarrow> 'r io" where
  "addLabelToTask srv svc taskId labelTask =
     try_catch
       (request srv (''/tasks/'' @ show_nat taskId @ ''/labels'') PUT (Some labelTask) None)
       (\<lambda>error.
          if is_VikunjaError error \<and>
             (statusCode_of error = Some 401 \<or> statusCode_of error = Some 403)
          then
            try_catch
              (request srv (''/tasks/'' @ show_nat taskId @ ''/labels'') PUT (Some labelTask)
                 (only_headers [(''X-API-Token'', or_empty (token svc))]))
              (\<lambda>retryError.
                 if is_VikunjaError retryError \<and>
                    (statusCode_of retryError = Some 401 \<or> statusCode_of retryError = Some 403)
                 then
                   try_catch
                     (request srv (''/tasks/'' @ show_nat taskId @ ''/labels'') PUT
                        (Some labelTask)
                        (only_headers
                           [(''authorization'', ''Bearer '' @ interpolate (token svc))]))
                     (\<lambda>finalError.
                        if is_VikunjaError finalError \<and>
                           (statusCode_of finalError = Some 401 \<or>
                            statusCode_of finalError = Some 403)
                        then throw (new_LabelAuthenticationError finalError)
                        else throw finalError)
                 else throw retryError)
          else throw error)"

definition removeLabelFromTask :: "'r primitive \<Rightarrow> service \<Rightarrow> nat \<Rightarrow> nat \<Rightarrow> 'r io" where
  "removeLabelFromTask srv svc taskId labelId =
     try_catch
       (request srv (''/tasks/'' @ show_nat taskId @ ''/labels/'' @ show_nat labelId) DELETE
          None None)
       (\<lambda>error.
          if is_VikunjaError error \<and>
             (statusCode_of error = Some 401 \<or> statusCode_of error = Some 403)
          then
            try_catch
              (request srv (''/tasks/'' @ show_nat taskId @ ''/labels/'' @ show_nat labelId)
                 DELETE None
                 (only_headers [(''X-API-Token'', or_empty (token svc))]))
              (\<lambda>retryError.
                 if is_VikunjaError retryError \<and>
                    (statusCode_of retryError = Some 401 \<or> statusCode_of retryError = Some 403)
                 then
                   try_catch
                     (request srv
                        (''/tasks/'' @ show_nat taskId @ ''/labels/'' @ show_nat labelId)
                        DELETE None
                        (only_headers
                           [(''authorization'', ''Bearer '' @ interpolate (token svc))]))
                     (\<lambda>finalError.
                        if is_VikunjaError finalError \<and>
                           (statusCode_of finalError = Some 401 \<or>
                            statusCode_of finalError = Some 403)
                        then throw (new_LabelAuthenticationError finalError)
                        else throw finalError)
                 else throw retryError)
          else throw error)"

text \<open>The six retried operations with their arguments, and the call of each.\<close>

datatype retried =
    AssignUserToTask nat nat
  | BulkAssignUsersToTask nat json
  | RemoveUserFromTask nat nat
  | UpdateTaskLabels nat json
  | AddLabelToTask nat json
  | RemoveLabelFromTask nat nat

fun call_retried :: "'r primitive \<Rightarrow> service \<Rightarrow> retried \<Rightarrow> 'r io" where
  "call_retried srv svc (AssignUserToTask t u) = assignUserToTask srv svc t u"
| "call_retried srv svc (BulkAssignUsersToTask t a) = bulkAssignUsersToTask srv svc t a"
| "call_retried srv svc (RemoveUserFromTask t u) = removeUserFromTask srv svc t u"
| "call_retried srv svc (UpdateTaskLabels t l) = updateTaskLabels srv svc t l"
| "call_retried srv svc (AddLabelToTask t l) = addLabelToTask srv svc t l"
| "call_retried srv svc (RemoveLabelFromTask t l) = removeLabelFromTask srv svc t l"

section \<open>Operations that never retry\<close>

text \<open>Each is one call of the request primitive; its outcome is the outcome of that call.\<close>

definition getAllTasks :: "'r primitive \<Rightarrow> (string \<times> pvalue) list option \<Rightarrow> 'r io" where
  "getAllTasks srv ps = request srv ''/tasks'' GET None (only_params ps)"

definition getProjectTasks ::
  "'r primitive \<Rightarrow> nat \<Rightarrow> (string \<times> pvalue) list option \<Rightarrow> 'r io" where
  "getProjectTasks srv projectId ps =
     request srv (''/projects/'' @ show_nat projectId @ ''/tasks'') GET None (only_params ps)"

definition createTask :: "'r primitive \<Rightarrow> nat \<Rightarrow> json \<Rightarrow> 'r io" where
  "createTask srv projectId task =
     request srv (''/projects/'' @ show_nat projectId @ ''/tasks'') PUT (Some task) None"

definition getTask :: "'r primitive \<Rightarrow> nat \<Rightarrow> 'r io" where
  "getTask srv taskId = request srv (''/tasks/'' @ show_nat taskId) GET None None"

definition updateTask :: "'r primitive \<Rightarrow> nat \<Rightarrow> json \<Rightarrow> 'r io" where
  "updateTask srv taskId task =
     request srv (''/tasks/'' @ show_nat taskId) POST (Some task) None"

definition deleteTask :: "'r primitive \<Rightarrow> nat \<Rightarrow> 'r io" where
  "deleteTask srv taskId = request srv (''/tasks/'' @ show_nat taskId) DELETE None None"

definition markTaskDone :: "'r primitive \<Rightarrow> nat \<Rightarrow> 'r io" where
  "markTaskDone srv taskId =
     request srv (''/tasks/'' @ show_nat taskId @ ''/done'') POST None None"

definition markTaskUndone :: "'r primitive \<Rightarrow> nat \<Rightarrow> 'r io" where
  "markTaskUndone srv taskId =
     request srv (''/tasks/'' @ show_nat taskId @ ''/undone'') POST None None"

definition getTaskAssignees ::
  "'r primitive \<Rightarrow> nat \<Rightarrow> (string \<times> pvalue) list option \<Rightarrow> 'r io" where
  "getTaskAssignees srv taskId ps =
     request srv (''/tasks/'' @ show_nat taskId @ ''/assignees'') GET None (only_params ps)"

definition getTaskComments :: "'r primitive \<Rightarrow> nat \<Rightarrow> 'r io" where
  "getTaskComments srv taskId =
     request srv (''/tasks/'' @ show_nat taskId @ ''/comments'') GET None None"

definition createTaskComment :: "'r primitive \<Rightarrow> nat \<Rightarrow> json \<Rightarrow> 'r io" where
  "createTaskComment srv taskId comment =
     request srv (''/tasks/'' @ show_nat taskId @ ''/comments'') PUT (Some comment) None"

definition getTaskComment :: "'r primitive \<Rightarrow> nat \<Rightarrow> nat \<Rightarrow> 'r io" where
  "getTaskComment srv taskId commentId =
     request srv (''/tasks/'' @ show_nat taskId @ ''/comments/'' @ show_nat commentId)
       GET None None"

definition updateTaskComment :: "'r primitive \<Rightarrow> nat \<Rightarrow> nat \<Rightarrow> json \<Rightarrow> 'r io" where
  "updateTaskComment srv taskId commentId comment =
     request srv (''/tasks/'' @ show_nat taskId @ ''/comments/'' @ show_nat commentId)
       POST (Some comment) None"

definition deleteTaskComment :: "'r primitive \<Rightarrow> nat \<Rightarrow> nat \<Rightarrow> 'r io" where
  "deleteTaskComment srv taskId commentId =
     request srv (''/tasks/'' @ show_nat taskId @ ''/comments/'' @ show_nat commentId)
       DELETE None None"

definition createTaskRelation :: "'r primitive \<Rightarrow> nat \<Rightarrow> json \<Rightarrow> 'r io" where
  "createTaskRelation srv taskId relation =
     request srv (''/tasks/'' @ show_nat taskId @ ''/relations'') PUT (Some relation) None"

text \<open>RelationKind is a string enumeration; its value is printed into the path.\<close>

definition deleteTaskRelation :: "'r primitive \<Rightarrow> nat \<Rightarrow> string \<Rightarrow> nat \<Rightarrow> 'r io" where
  "deleteTaskRelation srv taskId relationKind otherTaskId =
     request srv
       (''/tasks/'' @ show_nat taskId @ ''/relations/'' @ relationKind @ ''/'' @
          show_nat otherTaskId)
       DELETE None None"

definition bulkUpdateTasks :: "'r primitive \<Rightarrow> json \<Rightarrow> 'r io" where
  "bulkUpdateTasks srv operation = request srv ''/tasks/bulk'' POST (Some operation) None"

definition getTaskAttachments ::
  "'r primitive \<Rightarrow> nat \<Rightarrow> (string \<times> pvalue) list option \<Rightarrow> 'r io" where
  "getTaskAttachments srv taskId ps =
     request srv (''/tasks/'' @ show_nat taskId @ ''/attachments'') GET None (only_params ps)"

definition getTaskAttachment :: "'r primitive \<Rightarrow> nat \<Rightarrow> nat \<Rightarrow> 'r io" where
  "getTaskAttachment srv taskId attachmentId =
     request srv (''/tasks/'' @ show_nat taskId @ ''/attachments/'' @ show_nat attachmentId)
       GET None (Some \<lparr>params = None, headers = None, responseType = Some ''blob''\<rparr>)"

definition deleteTaskAttachment :: "'r primitive \<Rightarrow> nat \<Rightarrow> nat \<Rightarrow> 'r io" where
  "deleteTaskAttachment srv taskId attachmentId =
     request srv (''/tasks/'' @ show_nat taskId @ ''/attachments/'' @ show_nat attachmentId)
       DELETE None None"

definition updateTasksAcrossProjects :: "'r primitive \<Rightarrow> json \<Rightarrow> 'r io" where
  "updateTasksAcrossProjects srv bulkTask =
     request srv ''/tasks/bulk'' POST (Some bulkTask) None"

text \<open>
  \<^verbatim>\<open>convertParams\<close> is imported from \<^verbatim>\<open>core/request.js\<close>; it is a parameter here.
\<close>

definition getTaskLabels ::
  "('p \<Rightarrow> (string \<times> pvalue) list option) \<Rightarrow> 'r primitive \<Rightarrow> nat \<Rightarrow> 'p \<Rightarrow> 'r io" where
  "getTaskLabels convertParams srv taskId ps =
     request srv (''/tasks/'' @ show_nat taskId @ ''/labels'') GET None
       (only_params (convertParams ps))"

section \<open>Attachment upload\<close>

text \<open>
  uploadTaskAttachment calls \<^verbatim>\<open>fetch\<close> itself. A fetch either rejects or resolves to
  a response with its \<^verbatim>\<open>ok\<close> flag, its status and the outcome of \<^verbatim>\<open>response.json()\<close>.
  The form data is opaque.
\<close>

record 'f fetch_call =
  furl :: string
  fmethod :: http_method
  fheaders :: "(string \<times> string) list"
  fbody :: 'f

record http_response =
  ok :: bool
  status :: nat
  json_body :: "thrown + json"

type_synonym 'f fetch_primitive = "'f fetch_call \<Rightarrow> thrown + http_response"

text \<open>
  JavaScript truthiness of a parsed JSON value, as
  \<^verbatim>\<open>errorResponse.message || fallback\<close> tests it.
\<close>

fun js_truthy :: "json \<Rightarrow> bool" where
  "js_truthy JNull = False"
| "js_truthy (JBool b) = b"
| "js_truthy (JNum n) = (n \<noteq> 0)"
| "js_truthy (JStr s) = (s \<noteq> [])"
| "js_truthy (JArr xs) = True"
| "js_truthy (JObj kvs) = True"

definition show_int :: "int \<Rightarrow> string" where
  "show_int i = (if i < 0 then CHR ''-'' # show_nat (nat (- i)) else show_nat (nat i))"

text \<open>
  The error classes extend the built-in Error, whose constructor converts the message it
  is given to a string. The conversion of an object calls its \<^verbatim>\<open>toString\<close>: a parsed
  object without a member of that name prints as \<^verbatim>\<open>[object Object]\<close>; one with such a
  member has a \<^verbatim>\<open>toString\<close> that is not a function, and then the conversion throws
  a TypeError (no parsed value is a function, so a \<^verbatim>\<open>valueOf\<close> member does not help).
  An array joins the conversions of its elements with commas, null printing as nothing.
  The TypeError carries the message that Node.js gives it.
\<close>

definition cannot_convert :: thrown where
  "cannot_convert = JsError ''Cannot convert object to primitive value''"

fun js_to_string :: "json \<Rightarrow> thrown + string"
  and js_join :: "json list \<Rightarrow> thrown + string" where
  "js_to_string JNull = Inr ''null''"
| "js_to_string (JBool b) = Inr (if b then ''true'' else ''false'')"
| "js_to_string (JNum n) = Inr (show_int n)"
| "js_to_string (JStr s) = Inr s"
| "js_to_string (JArr xs) = js_join xs"
| "js_to_string (JObj kvs) =
     (if ''toString'' \<in> set (map fst kvs) then Inl cannot_convert
      else Inr ''[object Object]'')"
| "js_join [] = Inr []"
| "js_join (x # xs) =
     (case (case x of JNull \<Rightarrow> Inr [] | _ \<Rightarrow> js_to_string x) of
        Inl e \<Rightarrow> Inl e
      | Inr s \<Rightarrow>
          if xs = [] then Inr s
          else (case js_join xs of
                  Inl e \<Rightarrow> Inl e
                | Inr r \<Rightarrow> Inr (s @ CHR '','' # r)))"

text \<open>
  The members of a JavaScript object as it enumerates them. A member list is read as the
  order in which the members were set, a later value for a name replacing the earlier one
  in its place. Names that are array indices (decimal integers up to 4294967294, written
  without a leading zero) come first in ascending order, the other names follow in the
  order they were first set.
\<close>

fun upsert :: "'k \<Rightarrow> 'v \<Rightarrow> ('k \<times> 'v) list \<Rightarrow> ('k \<times> 'v) list" where
  "upsert k v [] = [(k, v)]"
| "upsert k v ((k', v') # kvs) =
     (if k = k' then (k, v) # kvs else (k', v') # upsert k v kvs)"

definition read_int :: "string \<Rightarrow> int" where
  "read_int ds = foldl (\<lambda>n c. 10 * n + (of_char c - 48)) 0 ds"

fun canonical_digits :: "string \<Rightarrow> bool" where
  "canonical_digits [] = False"
| "canonical_digits [c] = (c \<in> set ''0123456789'')"
| "canonical_digits (c # cs) =
     (c \<in> set ''123456789'' \<and> list_all (\<lambda>d. d \<in> set ''0123456789'') cs)"

definition is_array_index :: "string \<Rightarrow> bool" where
  "is_array_index k = (canonical_digits k \<and> read_int k \<le> 4294967294)"

definition own_members :: "(string \<times> 'v) list \<Rightarrow> (string \<times> 'v) list" where
  "own_members kvs =
     (let set_in_order = foldl (\<lambda>acc kv. upsert (fst kv) (snd kv) acc) [] kvs
      in sort_key (\<lambda>kv. read_int (fst kv))
           (filter (\<lambda>kv. is_array_index (fst kv)) set_in_order) @
         filter (\<lambda>kv. \<not> is_array_index (fst kv)) set_in_order)"

text \<open>
  \<^verbatim>\<open>{...errorData}\<close>: a new object with the own enumerable members of the parsed
  value. Strings are spread by character, which for ASCII text is by byte.
\<close>

fun spread :: "json \<Rightarrow> (string \<times> json) list" where
  "spread (JObj kvs) = own_members kvs"
| "spread (JArr xs) = zip (map show_nat [0..<length xs]) xs"
| "spread (JStr s) = zip (map show_nat [0..<length s]) (map (\<lambda>c. JStr [c]) s)"
| "spread v = []"

definition api_failed :: "nat \<Rightarrow> string" where
  "api_failed st = ''API request failed with status '' @ show_nat st"

definition or_network_error :: "string \<Rightarrow> string" where
  "or_network_error m = (if m = [] then ''Network error'' else m)"

text \<open>
  \<^verbatim>\<open>new VikunjaError(message, endpoint, method, statusCode, response)\<close> and its
  subclasses: the error object, or the TypeError that the conversion of the message
  throws. Either is what the \<^verbatim>\<open>throw new ...\<close> statement raises.
\<close>

definition new_error ::
  "error_class \<Rightarrow> json \<Rightarrow> string \<Rightarrow> string \<Rightarrow> nat \<Rightarrow> json option \<Rightarrow> thrown" where
  "new_error c msg ep m st resp =
     (case js_to_string msg of
        Inl type_error \<Rightarrow> type_error
      | Inr text \<Rightarrow>
          VErr \<lparr>cls = c, message = text, endpoint = ep, emethod = m, statusCode = st,
            response = resp\<rparr>)"

text \<open>
  The \<^verbatim>\<open>errorResponse\<close> and \<^verbatim>\<open>errorMessage\<close> that uploadTaskAttachment computes
  from a response that is not ok.
\<close>

definition errorResponse_of :: "http_response \<Rightarrow> (string \<times> json) list" where
  "errorResponse_of resp =
     (case json_body resp of
        Inr errorData \<Rightarrow> spread errorData
      | Inl parse_error \<Rightarrow> [(''message'', JStr (api_failed (status resp)))])"

definition errorMessage_of :: "http_response \<Rightarrow> json" where
  "errorMessage_of resp =
     (case map_of (errorResponse_of resp) ''message'' of
        Some m \<Rightarrow> if js_truthy m then m else JStr (api_failed (status resp))
      | None \<Rightarrow> JStr (api_failed (status resp)))"

text \<open>
  \<^verbatim>\<open>this.buildUrl\<close> is inherited from VikunjaService; it is a parameter here. The
  result pairs the outcome with the fetch calls that were issued.
\<close>

definition uploadTaskAttachment ::
  "(string \<Rightarrow> string) \<Rightarrow> 'f fetch_primitive \<Rightarrow> service \<Rightarrow> nat \<Rightarrow> 'f
     \<Rightarrow> (thrown + json) \<times> 'f fetch_call list" where
  "uploadTaskAttachment buildUrl fetch svc taskId formData =
     (let url = buildUrl (''/tasks/'' @ show_nat taskId @ ''/attachments'');
          hs = (if truthy (token svc)
                then [(''Authorization'', ''Bearer '' @ interpolate (token svc))]
                else []);
          call = \<lparr>furl = url, fmethod = PUT, fheaders = hs, fbody = formData\<rparr>;
          tried =
            (case fetch call of
               Inl rejected \<Rightarrow> Inl rejected
             | Inr resp \<Rightarrow>
                 if \<not> ok resp then
                   (let errorResponse = errorResponse_of resp;
                        errorMessage = errorMessage_of resp;
                        endpoint =
                          ''/tasks/'' @ show_nat taskId @ ''/attachments''; method = ''PUT''
                    in if status resp = 401 \<or> status resp = 403
                       then Inl (new_error VikunjaAuthenticationError errorMessage endpoint
                              method (status resp) (Some (JObj errorResponse)))
                       else Inl (new_error VikunjaError errorMessage endpoint
                              method (status resp) (Some (JObj errorResponse))))
                 else json_body resp)
      in (case tried of
            Inr v \<Rightarrow> Inr v
          | Inl error \<Rightarrow>
              if is_VikunjaError error then Inl error
              else Inl (VErr \<lparr>cls = VikunjaError,
                     message = or_network_error (message_of error),
                     endpoint =
                       ''/tasks/'' @ show_nat taskId @ ''/attachments'', emethod = ''PUT'',
                     statusCode = 0,
                     response =
                       Some (JObj [(''message'',
                         JStr (or_network_error (message_of error)))])\<rparr>),
          [call]))"

section \<open>The request primitive as the specification describes it\<close>

text \<open>
  Modelled from the spec: the shared request primitive (\<^verbatim>\<open>core/service.ts\<close>, outside
  this module) "raises a typed error carrying message, endpoint, method,
  statusCode, response on any non-2xx status or network failure, with a distinguished
  authentication-error subtype when statusCode is 401/403". An error of the primitive is
  therefore a VikunjaAuthenticationError when its status is 401 or 403 and a plain
  VikunjaError otherwise.
\<close>

fun primitive_error :: "thrown \<Rightarrow> bool" where
  "primitive_error (VErr e) =
     (if statusCode e = 401 \<or> statusCode e = 403
      then cls e = VikunjaAuthenticationError
      else cls e = VikunjaError)"
| "primitive_error (JsError m) = False"

text \<open>
  Modelled from the spec: the request primitive "attaches default headers (bearer auth,
  JSON content-type) unless overridden". For a client with a configured token the tests of
  getAllTasks expect exactly these two defaults on a call without options. A header of
  the call's options replaces the default of the same name and is added otherwise; a
  default that no option names stays attached.
\<close>

definition default_headers :: "string \<Rightarrow> (string \<times> string) list" where
  "default_headers t =
     [(''Authorization'', ''Bearer '' @ t), (''Content-Type'', ''application/json'')]"

definition sent_headers ::
  "(string \<times> string) list \<Rightarrow> request_call \<Rightarrow> (string \<times> string) list" where
  "sent_headers defaults c =
     (case roptions c of
        None \<Rightarrow> defaults
      | Some opts \<Rightarrow>
          (case headers opts of
             None \<Rightarrow> defaults
           | Some given \<Rightarrow> foldl (\<lambda>acc h. upsert (fst h) (snd h) acc) defaults given))"

text \<open>
  Modelled from the spec: the URL construction of the request primitive
  (\<^verbatim>\<open>core/request.ts\<close>, outside this module) appends the "serialized query
  parameters" to the path, the parameters being "passed through verbatim as URL query
  parameters"; the one rendering the specification shows writes a space as a plus sign,
  joins name and value with an equals sign and the pairs with an ampersand after a
  question mark; the tests of getAllTasks expect the same rendering. Absent (undefined)
  parameters are left out. Every other character is passed through as it is: the
  specification describes no escaping.
\<close>

fun show_pvalue :: "pvalue \<Rightarrow> string" where
  "show_pvalue (PStr s) = s"
| "show_pvalue (PNum n) = show_int n"
| "show_pvalue (PBool b) = (if b then ''true'' else ''false'')"
| "show_pvalue PUndefined = []"

definition plus_for_space :: "string \<Rightarrow> string" where
  "plus_for_space s = map (\<lambda>c. if c = CHR '' '' then CHR ''+'' else c) s"

fun join_amp :: "string list \<Rightarrow> string" where
  "join_amp [] = []"
| "join_amp [x] = x"
| "join_amp (x # y # ys) = x @ CHR ''&'' # join_amp (y # ys)"

definition query_string :: "(string \<times> pvalue) list \<Rightarrow> string" where
  "query_string ps =
     join_amp (map (\<lambda>(k, v). plus_for_space k @ CHR ''='' # plus_for_space (show_pvalue v))
       (filter (\<lambda>(k, v). v \<noteq> PUndefined) ps))"

definition request_target :: "request_call \<Rightarrow> string" where
  "request_target c =
     (case roptions c of
        None \<Rightarrow> rpath c
      | Some opts \<Rightarrow>
          (case params opts of
             None \<Rightarrow> rpath c
           | Some ps \<Rightarrow>
               if query_string ps = [] then rpath c
               else rpath c @ CHR ''?'' # query_string ps))"

section \<open>The shape shared by the six retried operations\<close>

text \<open>
  The three calls of a cascade for a given path, method and body, the test that lets the
  next attempt run, and the outcome of a cascade written as one expression. The retried
  operations are shown below to compute exactly this.
\<close>

definition auth_failure :: "thrown \<Rightarrow> bool" where
  "auth_failure e =
     (is_VikunjaError e \<and> (statusCode_of e = Some 401 \<or> statusCode_of e = Some 403))"

definition attempt1 :: "string \<Rightarrow> http_method \<Rightarrow> json option \<Rightarrow> request_call" where
  "attempt1 p m b = \<lparr>rpath = p, rmethod = m, rbody = b, roptions = None\<rparr>"

definition attempt2 :: "service \<Rightarrow> string \<Rightarrow> http_method \<Rightarrow> json option \<Rightarrow> request_call" where
  "attempt2 svc p m b =
     \<lparr>rpath = p, rmethod = m, rbody = b,
      roptions = only_headers [(''X-API-Token'', or_empty (token svc))]\<rparr>"

definition attempt3 :: "service \<Rightarrow> string \<Rightarrow> http_method \<Rightarrow> json option \<Rightarrow> request_call" where
  "attempt3 svc p m b =
     \<lparr>rpath = p, rmethod = m, rbody = b,
      roptions = only_headers [(''authorization'', ''Bearer '' @ interpolate (token svc))]\<rparr>"

definition cascade ::
  "'r primitive \<Rightarrow> service \<Rightarrow> (thrown \<Rightarrow> thrown) \<Rightarrow> string \<Rightarrow> http_method \<Rightarrow> json option
     \<Rightarrow> (thrown + 'r) \<times> request_call list" where
  "cascade srv svc final p m b =
     (case srv [] (attempt1 p m b) of
        Inr v \<Rightarrow> (Inr v, [attempt1 p m b])
      | Inl e1 \<Rightarrow>
          if auth_failure e1 then
            (case srv [attempt1 p m b] (attempt2 svc p m b) of
               Inr v \<Rightarrow> (Inr v, [attempt1 p m b, attempt2 svc p m b])
             | Inl e2 \<Rightarrow>
                 if auth_failure e2 then
                   (case srv [attempt1 p m b, attempt2 svc p m b] (attempt3 svc p m b) of
                      Inr v \<Rightarrow>
                        (Inr v, [attempt1 p m b, attempt2 svc p m b, attempt3 svc p m b])
                    | Inl e3 \<Rightarrow>
                        (Inl (final e3),
                         [attempt1 p m b, attempt2 svc p m b, attempt3 svc p m b]))
                 else (Inl e2, [attempt1 p m b, attempt2 svc p m b]))
          else (Inl e1, [attempt1 p m b]))"

definition final_by_class :: "(thrown \<Rightarrow> thrown) \<Rightarrow> thrown \<Rightarrow> thrown" where
  "final_by_class wrap e = (if is_VikunjaAuthenticationError e then wrap e else e)"

definition final_by_status :: "(thrown \<Rightarrow> thrown) \<Rightarrow> thrown \<Rightarrow> thrown" where
  "final_by_status wrap e = (if auth_failure e then wrap e else e)"

fun retried_path :: "retried \<Rightarrow> string" where
  "retried_path (AssignUserToTask t u) = ''/tasks/'' @ show_nat t @ ''/assignees''"
| "retried_path (BulkAssignUsersToTask t a) = ''/tasks/'' @ show_nat t @ ''/assignees/bulk''"
| "retried_path (RemoveUserFromTask t u) =
     ''/tasks/'' @ show_nat t @ ''/assignees/'' @ show_nat u"
| "retried_path (UpdateTaskLabels t l) = ''/tasks/'' @ show_nat t @ ''/labels/bulk''"
| "retried_path (AddLabelToTask t l) = ''/tasks/'' @ show_nat t @ ''/labels''"
| "retried_path (RemoveLabelFromTask t l) =
     ''/tasks/'' @ show_nat t @ ''/labels/'' @ show_nat l"

fun retried_method :: "retried \<Rightarrow> http_method" where
  "retried_method (AssignUserToTask t u) = PUT"
| "retried_method (BulkAssignUsersToTask t a) = POST"
| "retried_method (RemoveUserFromTask t u) = DELETE"
| "retried_method (UpdateTaskLabels t l) = POST"
| "retried_method (AddLabelToTask t l) = PUT"
| "retried_method (RemoveLabelFromTask t l) = DELETE"

fun retried_body :: "retried \<Rightarrow> json option" where
  "retried_body (AssignUserToTask t u) = Some (JObj [(''user_id'', JNum (int u))])"
| "retried_body (BulkAssignUsersToTask t a) = Some a"
| "retried_body (RemoveUserFromTask t u) = None"
| "retried_body (UpdateTaskLabels t l) = Some l"
| "retried_body (AddLabelToTask t l) = Some l"
| "retried_body (RemoveLabelFromTask t l) = None"

fun retried_final :: "retried \<Rightarrow> thrown \<Rightarrow> thrown" where
  "retried_final (AssignUserToTask t u) = final_by_class new_AssigneeAuthenticationError"
| "retried_final (BulkAssignUsersToTask t a) = final_by_class new_AssigneeAuthenticationError"
| "retried_final (RemoveUserFromTask t u) = final_by_class new_AssigneeAuthenticationError"
| "retried_final (UpdateTaskLabels t l) = final_by_class new_LabelAuthenticationError"
| "retried_final (AddLabelToTask t l) = final_by_status new_LabelAuthenticationError"
| "retried_final (RemoveLabelFromTask t l) = final_by_status new_LabelAuthenticationError"


text \<open>The method and path of every call that an operation issued, in order.\<close>

definition issued :: "'r io \<Rightarrow> (http_method \<times> string) list" where
  "issued act = map (\<lambda>c. (rmethod c, rpath c)) (snd (act []))"

section \<open>Sample collaborators\<close>

text \<open>
  A request primitive that answers the n-th call with the n-th scripted outcome, in the
  manner of the mocked responses of the test suite, and the values the examples use.
\<close>

definition scripted :: "(thrown + 'r) list \<Rightarrow> 'r primitive" where
  "scripted outcomes log c =
     (if length log < length outcomes then outcomes ! length log
      else Inl (JsError ''no outcome scripted''))"

definition forbidden :: vikunja_error where
  "forbidden =
     \<lparr>cls = VikunjaAuthenticationError, message = ''Forbidden'',
      endpoint = ''/tasks/5/assignees'', emethod = ''PUT'', statusCode = 403,
      response = Some (JObj [(''message'', JStr ''Forbidden'')])\<rparr>"

definition server_error :: vikunja_error where
  "server_error =
     \<lparr>cls = VikunjaError, message = ''Internal Server Error'',
      endpoint = ''/tasks/5/labels/bulk'', emethod = ''POST'', statusCode = 500,
      response = None\<rparr>"

definition mock_service :: service where
  "mock_service =
     \<lparr>baseUrl = ''https://vikunja.example.com/api/v1'', token = Str ''mock-token''\<rparr>"

definition tokenless_service :: service where
  "tokenless_service =
     \<lparr>baseUrl = ''https://vikunja.example.com/api/v1'', token = Undefined\<rparr>"

definition odd_message_fetch :: "string fetch_primitive" where
  "odd_message_fetch c =
     Inr \<lparr>ok = False, status = 403,
       json_body = Inr (JObj [(''message'', JObj [(''toString'', JNum 1)])])\<rparr>"

definition html_fetch :: "string fetch_primitive" where
  "html_fetch c =
     Inr \<lparr>ok = True, status = 200,
       json_body = Inl (JsError ''Unexpected token < in JSON at position 0'')\<rparr>"

section \<open>The retried operations compute the cascade\<close>

lemma assignUserToTask_cascade:
  "assignUserToTask srv svc t u [] =
     cascade srv svc (final_by_class new_AssigneeAuthenticationError)
       (''/tasks/'' @ show_nat t @ ''/assignees'') PUT
       (Some (JObj [(''user_id'', JNum (int u))]))"
  by (auto simp add: assignUserToTask_def cascade_def try_catch_def request_def throw_def
      attempt1_def attempt2_def attempt3_def auth_failure_def final_by_class_def Let_def
      split: sum.splits)

lemma bulkAssignUsersToTask_cascade:
  "bulkAssignUsersToTask srv svc t a [] =
     cascade srv svc (final_by_class new_AssigneeAuthenticationError)
       (''/tasks/'' @ show_nat t @ ''/assignees/bulk'') POST (Some a)"
  by (auto simp add: bulkAssignUsersToTask_def cascade_def try_catch_def request_def throw_def
      attempt1_def attempt2_def attempt3_def auth_failure_def final_by_class_def Let_def
      split: sum.splits)

lemma removeUserFromTask_cascade:
  "removeUserFromTask srv svc t u [] =
     cascade srv svc (final_by_class new_AssigneeAuthenticationError)
       (''/tasks/'' @ show_nat t @ ''/assignees/'' @ show_nat u) DELETE None"
  by (auto simp add: removeUserFromTask_def cascade_def try_catch_def request_def throw_def
      attempt1_def attempt2_def attempt3_def auth_failure_def final_by_class_def Let_def
      split: sum.splits)

lemma updateTaskLabels_cascade:
  "updateTaskLabels srv svc t l [] =
     cascade srv svc (final_by_class new_LabelAuthenticationError)
       (''/tasks/'' @ show_nat t @ ''/labels/bulk'') POST (Some l)"
  by (auto simp add: updateTaskLabels_def cascade_def try_catch_def request_def throw_def
      attempt1_def attempt2_def attempt3_def auth_failure_def final_by_class_def Let_def
      split: sum.splits)

lemma addLabelToTask_cascade:
  "addLabelToTask srv svc t l [] =
     cascade srv svc (final_by_status new_LabelAuthenticationError)
       (''/tasks/'' @ show_nat t @ ''/labels'') PUT (Some l)"
  by (auto simp add: addLabelToTask_def cascade_def try_catch_def request_def throw_def
      attempt1_def attempt2_def attempt3_def auth_failure_def final_by_status_def Let_def
      split: sum.splits)

lemma removeLabelFromTask_cascade:
  "removeLabelFromTask srv svc t l [] =
     cascade srv svc (final_by_status new_LabelAuthenticationError)
       (''/tasks/'' @ show_nat t @ ''/labels/'' @ show_nat l) DELETE None"
  by (auto simp add: removeLabelFromTask_def cascade_def try_catch_def request_def throw_def
      attempt1_def attempt2_def attempt3_def auth_failure_def final_by_status_def Let_def
      split: sum.splits)

lemma call_retried_cascade:
  "call_retried srv svc opn [] =
     cascade srv svc (retried_final opn) (retried_path opn) (retried_method opn)
       (retried_body opn)"
  by (cases opn)
    (simp_all add: assignUserToTask_cascade bulkAssignUsersToTask_cascade
      removeUserFromTask_cascade updateTaskLabels_cascade addLabelToTask_cascade
      removeLabelFromTask_cascade)

lemma cascade_cases:
  assumes "cascade srv svc final p m b = (res, log)"
  obtains
    (ok1) v where "srv [] (attempt1 p m b) = Inr v" "res = Inr v" "log = [attempt1 p m b]"
  | (err1) e1 where "srv [] (attempt1 p m b) = Inl e1" "\<not> auth_failure e1" "res = Inl e1"
      "log = [attempt1 p m b]"
  | (ok2) e1 v where "srv [] (attempt1 p m b) = Inl e1" "auth_failure e1"
      "srv [attempt1 p m b] (attempt2 svc p m b) = Inr v" "res = Inr v"
      "log = [attempt1 p m b, attempt2 svc p m b]"
  | (err2) e1 e2 where "srv [] (attempt1 p m b) = Inl e1" "auth_failure e1"
      "srv [attempt1 p m b] (attempt2 svc p m b) = Inl e2" "\<not> auth_failure e2" "res = Inl e2"
      "log = [attempt1 p m b, attempt2 svc p m b]"
  | (ok3) e1 e2 v where "srv [] (attempt1 p m b) = Inl e1" "auth_failure e1"
      "srv [attempt1 p m b] (attempt2 svc p m b) = Inl e2" "auth_failure e2"
      "srv [attempt1 p m b, attempt2 svc p m b] (attempt3 svc p m b) = Inr v" "res = Inr v"
      "log = [attempt1 p m b, attempt2 svc p m b, attempt3 svc p m b]"
  | (err3) e1 e2 e3 where "srv [] (attempt1 p m b) = Inl e1" "auth_failure e1"
      "srv [attempt1 p m b] (attempt2 svc p m b) = Inl e2" "auth_failure e2"
      "srv [attempt1 p m b, attempt2 svc p m b] (attempt3 svc p m b) = Inl e3"
      "res = Inl (final e3)"
      "log = [attempt1 p m b, attempt2 svc p m b, attempt3 svc p m b]"
  using assms unfolding cascade_def
  by (auto split: sum.splits if_splits)

lemma auth_failure_status:
  "auth_failure e \<longleftrightarrow> (statusCode_of e = Some 401 \<or> statusCode_of e = Some 403)"
  by (cases e) (simp_all add: auth_failure_def)



lemma show_nat_digit: "n < 10 \<Longrightarrow> show_nat n = [''0123456789'' ! n]"
  by (simp add: show_nat.simps)

lemma show_nat_10: "show_nat 10 = ''10''"
  by (simp add: show_nat.simps [of 10] show_nat_digit)

lemma map_three: "length xs = 3 \<Longrightarrow> map f xs = [f (xs ! 0), f (xs ! 1), f (xs ! 2)]"
  by (auto simp add: length_Suc_conv numeral_3_eq_3)

lemmas run_simps =
  assignUserToTask_cascade bulkAssignUsersToTask_cascade removeUserFromTask_cascade
  updateTaskLabels_cascade addLabelToTask_cascade removeLabelFromTask_cascade cascade_def
  scripted_def attempt1_def attempt2_def attempt3_def
  only_headers_def auth_failure_def final_by_class_def final_by_status_def forbidden_def
  server_error_def mock_service_def tokenless_service_def show_nat_digit
  assignee_message_def label_message_def

section \<open>The authentication-retry cascade\<close>





text \<open>
  Claim C3. For every retried operation: at least one request is issued; when the first
  attempt succeeds, exactly one request is issued and its response is returned; when the
  first attempt fails with status 401 or 403 and the second succeeds, exactly two requests
  are issued and the response of the second is returned.
\<close>

theorem first_success_ends_cascade:
  assumes "call_retried srv svc opn [] = (res, log)"
  shows "log \<noteq> [] \<and>
    (\<forall>v. srv [] (log ! 0) = Inr v \<longrightarrow> res = Inr v \<and> length log = 1) \<and>
    (\<forall>e v. srv [] (log ! 0) = Inl e \<and>
        (statusCode_of e = Some 401 \<or> statusCode_of e = Some 403) \<and>
        srv [log ! 0] (log ! 1) = Inr v \<longrightarrow>
      res = Inr v \<and> length log = 2)"
proof -
  from assms have c: "cascade srv svc (retried_final opn) (retried_path opn)
      (retried_method opn) (retried_body opn) = (res, log)"
    by (simp add: call_retried_cascade)
  show ?thesis
    by (rule cascade_cases [OF c]) (auto simp add: auth_failure_status)
qed

text \<open>The theorem at a concrete cascade.\<close>

theorem first_success_ends_cascade_witness:
  "scripted [Inl (VErr forbidden), Inr (JStr ''assigned'')] []
     \<lparr>rpath = ''/tasks/5/assignees/9'', rmethod = DELETE, rbody = None, roptions = None\<rparr> =
     Inl (VErr forbidden) \<and>
   statusCode_of (VErr forbidden) = Some 403 \<and>
   call_retried (scripted [Inl (VErr forbidden), Inr (JStr ''assigned'')])
     mock_service (RemoveUserFromTask 5 9) [] =
   (Inr (JStr ''assigned''),
    [\<lparr>rpath = ''/tasks/5/assignees/9'', rmethod = DELETE, rbody = None, roptions = None\<rparr>,
     \<lparr>rpath = ''/tasks/5/assignees/9'', rmethod = DELETE, rbody = None,
      roptions = Some \<lparr>params = None, headers = Some [(''X-API-Token'', ''mock-token'')],
        responseType = None\<rparr>\<rparr>])"
proof -
  let ?srv = "scripted [Inl (VErr forbidden), Inr (JStr ''assigned'')] :: json primitive"
  let ?run = "call_retried ?srv mock_service (RemoveUserFromTask 5 9) []"
  have log: "snd ?run =
    [\<lparr>rpath = ''/tasks/5/assignees/9'', rmethod = DELETE, rbody = None, roptions = None\<rparr>,
     \<lparr>rpath = ''/tasks/5/assignees/9'', rmethod = DELETE, rbody = None,
      roptions = Some \<lparr>params = None, headers = Some [(''X-API-Token'', ''mock-token'')],
        responseType = None\<rparr>\<rparr>]"
    by (simp add: run_simps)
  have h1: "?run = (fst ?run, snd ?run)" by simp
  have a1: "?srv [] (snd ?run ! 0) = Inl (VErr forbidden)"
    by (simp add: scripted_def)
  have st: "statusCode_of (VErr forbidden) = Some 403" by (simp add: forbidden_def)
  have a2: "?srv [snd ?run ! 0] (snd ?run ! 1) = Inr (JStr ''assigned'')"
    by (simp add: scripted_def)
  from first_success_ends_cascade [OF h1] a1 st a2
  have "fst ?run = Inr (JStr ''assigned'')" by blast
  with log a1 st show ?thesis by (simp add: prod_eq_iff)
qed

text \<open>
  The calls of a cascade, for every retried operation of a client whose token is the
  string \<open>t\<close>: between one and three attempts are issued and the first passes no
  options; a second attempt is issued exactly when the first failed with status 401 or
  403, and a third exactly when the second was issued and failed so; the later attempts
  equal the first in path, method and body and pass, as their only option, the header
  \<^verbatim>\<open>X-API-Token\<close> with the raw token and the lowercase header
  \<^verbatim>\<open>authorization\<close> with the token after the Bearer prefix.
\<close>

lemma attempts_and_their_options:
  assumes "call_retried srv svc opn [] = (res, log)"
    and "token svc = Str t"
  shows "0 < length log \<and> length log \<le> 3 \<and> roptions (log ! 0) = None \<and>
    ((1 < length log) =
       (\<exists>e. srv [] (log ! 0) = Inl e \<and>
          (statusCode_of e = Some 401 \<or> statusCode_of e = Some 403))) \<and>
    (1 < length log \<longrightarrow>
       log ! 1 = (log ! 0)\<lparr>roptions :=
          Some \<lparr>params = None, headers = Some [(''X-API-Token'', t)],
            responseType = None\<rparr>\<rparr>) \<and>
    ((2 < length log) =
       (1 < length log \<and>
        (\<exists>e. srv [log ! 0] (log ! 1) = Inl e \<and>
           (statusCode_of e = Some 401 \<or> statusCode_of e = Some 403)))) \<and>
    (2 < length log \<longrightarrow>
       log ! 2 = (log ! 0)\<lparr>roptions :=
          Some \<lparr>params = None, headers = Some [(''authorization'', ''Bearer '' @ t)],
            responseType = None\<rparr>\<rparr>)"
proof -
  from assms(1) have c: "cascade srv svc (retried_final opn) (retried_path opn)
      (retried_method opn) (retried_body opn) = (res, log)"
    by (simp add: call_retried_cascade)
  show ?thesis
    using assms(2)
    by (rule_tac cascade_cases [OF c])
      (auto simp add: auth_failure_status attempt1_def attempt2_def attempt3_def
        only_headers_def)
qed

text \<open>
  Claim C4. The claim has the second attempt replace the auth header by the alternate
  header, and the comment in assignUserToTask says the same ("Retry with X-API-Token header
  instead of Authorization Bearer"). The cascade only adds \<^verbatim>\<open>X-API-Token\<close> to the
  options of the call. With the request primitive attaching its defaults unless a header
  of the call overrides them, the second attempt of assignUserToTask(5, 9), on a client
  with the token mock-token whose first attempt is answered 403, still carries the
  standard \<^verbatim>\<open>Authorization\<close> bearer header next to the alternate one.
\<close>

theorem second_attempt_keeps_authorization_header:
  "map (sent_headers (default_headers ''mock-token''))
     (snd (call_retried (scripted [Inl (VErr forbidden), Inr (JStr ''assigned'')])
        mock_service (AssignUserToTask 5 9) [])) =
   [[(''Authorization'', ''Bearer mock-token''), (''Content-Type'', ''application/json'')],
    [(''Authorization'', ''Bearer mock-token''), (''Content-Type'', ''application/json''),
     (''X-API-Token'', ''mock-token'')]]"
  by (simp add: run_simps sent_headers_def default_headers_def)

text \<open>
  Claim C5. assignUserToTask(5, 9) when every attempt fails with status 403: the three
  requests are PUT /tasks/5/assignees with body \<^verbatim>\<open>{user_id: 9}\<close>, first without
  options, then with the X-API-Token header, then with the lowercase authorization header,
  and the caller receives an AssigneeAuthenticationError whose message contains
  "Assignee operation failed due to authentication issue" and whose status code is 403.
  The third failure is an error of the request primitive.
\<close>

theorem assignUserToTask_5_9_all_forbidden:
  assumes "srv []
      \<lparr>rpath = ''/tasks/5/assignees'', rmethod = PUT,
       rbody = Some (JObj [(''user_id'', JNum 9)]), roptions = None\<rparr> = Inl (VErr e1)"
    and "srv
      [\<lparr>rpath = ''/tasks/5/assignees'', rmethod = PUT,
        rbody = Some (JObj [(''user_id'', JNum 9)]), roptions = None\<rparr>]
      \<lparr>rpath = ''/tasks/5/assignees'', rmethod = PUT,
       rbody = Some (JObj [(''user_id'', JNum 9)]),
       roptions = Some \<lparr>params = None, headers = Some [(''X-API-Token'', or_empty (token svc))],
         responseType = None\<rparr>\<rparr> = Inl (VErr e2)"
    and "srv
      [\<lparr>rpath = ''/tasks/5/assignees'', rmethod = PUT,
        rbody = Some (JObj [(''user_id'', JNum 9)]), roptions = None\<rparr>,
       \<lparr>rpath = ''/tasks/5/assignees'', rmethod = PUT,
        rbody = Some (JObj [(''user_id'', JNum 9)]),
        roptions = Some \<lparr>params = None, headers = Some [(''X-API-Token'', or_empty (token svc))],
          responseType = None\<rparr>\<rparr>]
      \<lparr>rpath = ''/tasks/5/assignees'', rmethod = PUT,
       rbody = Some (JObj [(''user_id'', JNum 9)]),
       roptions = Some \<lparr>params = None,
         headers = Some [(''authorization'', ''Bearer '' @ interpolate (token svc))],
         responseType = None\<rparr>\<rparr> = Inl (VErr e3)"
    and "statusCode e1 = 403" and "statusCode e2 = 403" and "statusCode e3 = 403"
    and "primitive_error (VErr e3)"
  shows "\<exists>e. assignUserToTask srv svc 5 9 [] =
      (Inl (VErr e),
       [\<lparr>rpath = ''/tasks/5/assignees'', rmethod = PUT,
         rbody = Some (JObj [(''user_id'', JNum 9)]), roptions = None\<rparr>,
        \<lparr>rpath = ''/tasks/5/assignees'', rmethod = PUT,
         rbody = Some (JObj [(''user_id'', JNum 9)]),
         roptions = Some \<lparr>params = None,
           headers = Some [(''X-API-Token'', or_empty (token svc))],
           responseType = None\<rparr>\<rparr>,
        \<lparr>rpath = ''/tasks/5/assignees'', rmethod = PUT,
         rbody = Some (JObj [(''user_id'', JNum 9)]),
         roptions = Some \<lparr>params = None,
           headers = Some [(''authorization'', ''Bearer '' @ interpolate (token svc))],
           responseType = None\<rparr>\<rparr>]) \<and>
      cls e = AssigneeAuthenticationError \<and>
      sublist ''Assignee operation failed due to authentication issue'' (message e) \<and>
      statusCode e = 403"
proof -
  have p: "show_nat 5 = ''5''"
    by (simp add: show_nat_digit)
  have sub: "sublist ''Assignee operation failed due to authentication issue''
      (assignee_message (message e3))"
    unfolding assignee_message_def
    by (rule prefix_imp_sublist) simp
  show ?thesis
    using assms sub
    by (simp add: assignUserToTask_cascade p cascade_def attempt1_def attempt2_def
        attempt3_def only_headers_def auth_failure_def final_by_class_def)
qed

text \<open>The theorem at a concrete cascade.\<close>

theorem assignUserToTask_5_9_all_forbidden_witness:
  "primitive_error (VErr forbidden) \<and> statusCode forbidden = 403 \<and>
   (\<exists>e. fst (assignUserToTask
        (scripted [Inl (VErr forbidden), Inl (VErr forbidden), Inl (VErr forbidden)]
           :: json primitive)
        mock_service 5 9 []) = Inl (VErr e) \<and>
      cls e = AssigneeAuthenticationError \<and>
      sublist ''Assignee operation failed due to authentication issue'' (message e) \<and>
      statusCode e = 403)"
proof -
  let ?srv = "scripted [Inl (VErr forbidden), Inl (VErr forbidden), Inl (VErr forbidden)]
    :: json primitive"
  have st: "statusCode forbidden = 403" by (simp add: forbidden_def)
  have pe: "primitive_error (VErr forbidden)" by (simp add: forbidden_def)
  have "\<exists>e. assignUserToTask ?srv mock_service 5 9 [] =
      (Inl (VErr e),
       [\<lparr>rpath = ''/tasks/5/assignees'', rmethod = PUT,
         rbody = Some (JObj [(''user_id'', JNum 9)]), roptions = None\<rparr>,
        \<lparr>rpath = ''/tasks/5/assignees'', rmethod = PUT,
         rbody = Some (JObj [(''user_id'', JNum 9)]),
         roptions = Some \<lparr>params = None,
           headers = Some [(''X-API-Token'', or_empty (token mock_service))],
           responseType = None\<rparr>\<rparr>,
        \<lparr>rpath = ''/tasks/5/assignees'', rmethod = PUT,
         rbody = Some (JObj [(''user_id'', JNum 9)]),
         roptions = Some \<lparr>params = None,
           headers = Some [(''authorization'', ''Bearer '' @ interpolate (token mock_service))],
           responseType = None\<rparr>\<rparr>]) \<and>
      cls e = AssigneeAuthenticationError \<and>
      sublist ''Assignee operation failed due to authentication issue'' (message e) \<and>
      statusCode e = 403"
    by (rule assignUserToTask_5_9_all_forbidden [where ?e1.0 = forbidden and ?e2.0 = forbidden
          and ?e3.0 = forbidden])
      (simp_all add: scripted_def forbidden_def)
  then show ?thesis using st pe by auto
qed

section \<open>Upload, queries and the plain operations\<close>

text \<open>
  The one fetch of uploadTaskAttachment: PUT to the built URL with the form data as the
  body and, as its only header, Authorization with the bearer token when the token is a
  non-empty string, and no header at all otherwise (so no content type is set).
\<close>

lemma upload_fetch_call:
  "snd (uploadTaskAttachment buildUrl fetch svc taskId formData) =
     [\<lparr>furl = buildUrl (''/tasks/'' @ show_nat taskId @ ''/attachments''), fmethod = PUT,
       fheaders =
         (case token svc of
            Str t \<Rightarrow> if t = [] then [] else [(''Authorization'', ''Bearer '' @ t)]
          | _ \<Rightarrow> []),
       fbody = formData\<rparr>]"
  by (cases "token svc") (simp_all add: uploadTaskAttachment_def Let_def)

text \<open>
  A response that is not ok and whose message can be converted to a string is reported
  with its status, as a VikunjaAuthenticationError for 401 and 403 and as a plain
  VikunjaError for any other status.
\<close>

lemma upload_classifies_by_status:
  assumes "snd (uploadTaskAttachment buildUrl fetch svc taskId formData) = [c]"
    and "fetch c = Inr resp"
    and "\<not> ok resp"
    and "js_to_string (errorMessage_of resp) = Inr text"
  shows "fst (uploadTaskAttachment buildUrl fetch svc taskId formData) =
     Inl (VErr \<lparr>cls =
         (if status resp = 401 \<or> status resp = 403 then VikunjaAuthenticationError
          else VikunjaError),
       message = text, endpoint = ''/tasks/'' @ show_nat taskId @ ''/attachments'',
       emethod = ''PUT'', statusCode = status resp,
       response = Some (JObj (errorResponse_of resp))\<rparr>)"
  using assms
  by (auto simp add: uploadTaskAttachment_def Let_def new_error_def)

text \<open>
  Claim C6. The claim has every response that is not ok classified by its status. The
  classification is lost when the construction of the error throws: a 403 response whose
  body is \<^verbatim>\<open>{"message": {"toString": 1}}\<close> has a message that cannot be converted
  to a string, the TypeError of the conversion is raised inside the outer
  \<^verbatim>\<open>try\<close>, and the handler meant for network errors reports it as a plain
  VikunjaError with status code 0. The fetch itself is as the claim says.
\<close>

theorem upload_odd_message_403_is_status_0:
  "uploadTaskAttachment (\<lambda>p. baseUrl mock_service @ p) odd_message_fetch mock_service 7
     ''file'' =
   (Inl (VErr \<lparr>cls = VikunjaError, message = ''Cannot convert object to primitive value'',
      endpoint = ''/tasks/7/attachments'', emethod = ''PUT'', statusCode = 0,
      response = Some (JObj [(''message'',
        JStr ''Cannot convert object to primitive value'')])\<rparr>),
    [\<lparr>furl = ''https://vikunja.example.com/api/v1/tasks/7/attachments'', fmethod = PUT,
      fheaders = [(''Authorization'', ''Bearer mock-token'')], fbody = ''file''\<rparr>])"
  by (simp add: uploadTaskAttachment_def odd_message_fetch_def mock_service_def
      show_nat_digit Let_def errorResponse_of_def errorMessage_of_def new_error_def
      own_members_def is_array_index_def cannot_convert_def or_network_error_def)

text \<open>
  Claim C7. getAllTasks with page 1, per_page 10, s "x", sort_by "title", order_by "asc" and
  filter "done equals false" issues exactly one call of the request primitive: GET /tasks
  without a body, the parameters passed on as they were given; its outcome is the outcome
  of that call. With the query rendering described by the specification the request goes
  to /tasks?page=1&per_page=10&s=x&sort_by=title&order_by=asc&filter=done+equals+false.
\<close>

theorem getAllTasks_scenario:
  "getAllTasks srv
     (Some [(''page'', PNum 1), (''per_page'', PNum 10), (''s'', PStr ''x''),
        (''sort_by'', PStr ''title''), (''order_by'', PStr ''asc''),
        (''filter'', PStr ''done equals false'')]) [] =
   (srv []
      \<lparr>rpath = ''/tasks'', rmethod = GET, rbody = None,
       roptions = Some \<lparr>params =
         Some [(''page'', PNum 1), (''per_page'', PNum 10), (''s'', PStr ''x''),
           (''sort_by'', PStr ''title''), (''order_by'', PStr ''asc''),
           (''filter'', PStr ''done equals false'')],
         headers = None, responseType = None\<rparr>\<rparr>,
    [\<lparr>rpath = ''/tasks'', rmethod = GET, rbody = None,
      roptions = Some \<lparr>params =
        Some [(''page'', PNum 1), (''per_page'', PNum 10), (''s'', PStr ''x''),
          (''sort_by'', PStr ''title''), (''order_by'', PStr ''asc''),
          (''filter'', PStr ''done equals false'')],
        headers = None, responseType = None\<rparr>\<rparr>]) \<and>
   map request_target
     (snd (getAllTasks srv
       (Some [(''page'', PNum 1), (''per_page'', PNum 10), (''s'', PStr ''x''),
          (''sort_by'', PStr ''title''), (''order_by'', PStr ''asc''),
          (''filter'', PStr ''done equals false'')]) [])) =
   [''/tasks?page=1&per_page=10&s=x&sort_by=title&order_by=asc&filter=done+equals+false'']"
  by (simp add: getAllTasks_def request_def only_params_def request_target_def
      query_string_def plus_for_space_def show_int_def show_nat_digit show_nat_10 Let_def)

text \<open>
  Claim C8. Every operation that is not retried issues exactly one request, whose method
  and path are those of the remote API's convention: PUT for createTask, createTaskComment,
  createTaskRelation and the attachment upload; POST for updateTask, updateTaskComment,
  bulkUpdateTasks, updateTasksAcrossProjects, markTaskDone and markTaskUndone; GET for
  the reads; DELETE for the removals.
\<close>

theorem plain_methods_and_paths:
  "issued (getAllTasks srv ps) = [(GET, ''/tasks'')] \<and>
   issued (getProjectTasks srv projectId ps) =
     [(GET, ''/projects/'' @ show_nat projectId @ ''/tasks'')] \<and>
   issued (createTask srv projectId task) =
     [(PUT, ''/projects/'' @ show_nat projectId @ ''/tasks'')] \<and>
   issued (getTask srv taskId) = [(GET, ''/tasks/'' @ show_nat taskId)] \<and>
   issued (updateTask srv taskId task) = [(POST, ''/tasks/'' @ show_nat taskId)] \<and>
   issued (deleteTask srv taskId) = [(DELETE, ''/tasks/'' @ show_nat taskId)] \<and>
   issued (markTaskDone srv taskId) = [(POST, ''/tasks/'' @ show_nat taskId @ ''/done'')] \<and>
   issued (markTaskUndone srv taskId) =
     [(POST, ''/tasks/'' @ show_nat taskId @ ''/undone'')] \<and>
   issued (getTaskAssignees srv taskId ps) =
     [(GET, ''/tasks/'' @ show_nat taskId @ ''/assignees'')] \<and>
   issued (getTaskComments srv taskId) =
     [(GET, ''/tasks/'' @ show_nat taskId @ ''/comments'')] \<and>
   issued (createTaskComment srv taskId comment) =
     [(PUT, ''/tasks/'' @ show_nat taskId @ ''/comments'')] \<and>
   issued (getTaskComment srv taskId commentId) =
     [(GET, ''/tasks/'' @ show_nat taskId @ ''/comments/'' @ show_nat commentId)] \<and>
   issued (updateTaskComment srv taskId commentId comment) =
     [(POST, ''/tasks/'' @ show_nat taskId @ ''/comments/'' @ show_nat commentId)] \<and>
   issued (deleteTaskComment srv taskId commentId) =
     [(DELETE, ''/tasks/'' @ show_nat taskId @ ''/comments/'' @ show_nat commentId)] \<and>
   issued (createTaskRelation srv taskId relation) =
     [(PUT, ''/tasks/'' @ show_nat taskId @ ''/relations'')] \<and>
   issued (deleteTaskRelation srv taskId relationKind otherTaskId) =
     [(DELETE, ''/tasks/'' @ show_nat taskId @ ''/relations/'' @ relationKind @ ''/'' @
        show_nat otherTaskId)] \<and>
   issued (bulkUpdateTasks srv operation) = [(POST, ''/tasks/bulk'')] \<and>
   issued (updateTasksAcrossProjects srv bulkTask) = [(POST, ''/tasks/bulk'')] \<and>
   issued (getTaskAttachments srv taskId ps) =
     [(GET, ''/tasks/'' @ show_nat taskId @ ''/attachments'')] \<and>
   issued (getTaskAttachment srv taskId attachmentId) =
     [(GET, ''/tasks/'' @ show_nat taskId @ ''/attachments/'' @ show_nat attachmentId)] \<and>
   issued (deleteTaskAttachment srv taskId attachmentId) =
     [(DELETE, ''/tasks/'' @ show_nat taskId @ ''/attachments/'' @ show_nat attachmentId)] \<and>
   issued (getTaskLabels convertParams srv taskId lps) =
     [(GET, ''/tasks/'' @ show_nat taskId @ ''/labels'')] \<and>
   map (\<lambda>c. (fmethod c, furl c))
       (snd (uploadTaskAttachment buildUrl fetch svc taskId formData)) =
     [(PUT, buildUrl (''/tasks/'' @ show_nat taskId @ ''/attachments''))]"
  by (simp add: issued_def request_def getAllTasks_def getProjectTasks_def createTask_def
      getTask_def updateTask_def deleteTask_def markTaskDone_def markTaskUndone_def
      getTaskAssignees_def getTaskComments_def createTaskComment_def getTaskComment_def
      updateTaskComment_def deleteTaskComment_def createTaskRelation_def
      deleteTaskRelation_def bulkUpdateTasks_def updateTasksAcrossProjects_def
      getTaskAttachments_def getTaskAttachment_def deleteTaskAttachment_def
      getTaskLabels_def uploadTaskAttachment_def Let_def)

section \<open>Clients without a token, and unparsable upload responses\<close>

text \<open>
  Claim C9. For every retried operation of a client without a token (undefined or null):
  the first attempt is issued; when it fails with status 401 or 403 the second attempt is
  issued with the header X-API-Token holding the empty string; when that fails with 401 or
  403 as well the third attempt is issued with the lowercase authorization header holding
  "Bearer " followed by the printed absent token, and a success of the third attempt is
  the result. No attempt is skipped for lack of a token.
\<close>

theorem absent_token_attempts_still_issued:
  assumes "call_retried srv svc opn [] = (res, log)"
    and "token svc = Undefined \<or> token svc = Null"
  shows "0 < length log \<and>
    ((\<exists>e. srv [] (log ! 0) = Inl e \<and>
        (statusCode_of e = Some 401 \<or> statusCode_of e = Some 403)) \<longrightarrow>
       2 \<le> length log \<and>
       log ! 1 = (log ! 0)\<lparr>roptions :=
          Some \<lparr>params = None, headers = Some [(''X-API-Token'', [])],
            responseType = None\<rparr>\<rparr> \<and>
       ((\<exists>e. srv [log ! 0] (log ! 1) = Inl e \<and>
           (statusCode_of e = Some 401 \<or> statusCode_of e = Some 403)) \<longrightarrow>
          length log = 3 \<and>
          log ! 2 = (log ! 0)\<lparr>roptions :=
             Some \<lparr>params = None,
               headers = Some [(''authorization'',
                 ''Bearer '' @ (if token svc = Undefined then ''undefined'' else ''null''))],
               responseType = None\<rparr>\<rparr> \<and>
          (\<forall>v. srv [log ! 0, log ! 1] (log ! 2) = Inr v \<longrightarrow> res = Inr v)))"
proof -
  from assms(1) have c: "cascade srv svc (retried_final opn) (retried_path opn)
      (retried_method opn) (retried_body opn) = (res, log)"
    by (simp add: call_retried_cascade)
  show ?thesis
    using assms(2)
    by (rule_tac cascade_cases [OF c])
      (auto simp add: auth_failure_status attempt1_def attempt2_def attempt3_def
        only_headers_def)
qed

text \<open>The theorem at a concrete cascade.\<close>

theorem absent_token_attempts_still_issued_witness:
  "token tokenless_service = Undefined \<and>
   map roptions (snd (call_retried
      (scripted [Inl (VErr forbidden), Inl (VErr forbidden), Inr (JStr ''removed'')])
      tokenless_service (RemoveLabelFromTask 5 3) [])) =
   [None,
    Some \<lparr>params = None, headers = Some [(''X-API-Token'', [])], responseType = None\<rparr>,
    Some \<lparr>params = None, headers = Some [(''authorization'', ''Bearer undefined'')],
      responseType = None\<rparr>] \<and>
   fst (call_retried
      (scripted [Inl (VErr forbidden), Inl (VErr forbidden), Inr (JStr ''removed'')])
      tokenless_service (RemoveLabelFromTask 5 3) []) = Inr (JStr ''removed'')"
proof -
  let ?srv = "scripted [Inl (VErr forbidden), Inl (VErr forbidden), Inr (JStr ''removed'')]
    :: json primitive"
  let ?run = "call_retried ?srv tokenless_service (RemoveLabelFromTask 5 3) []"
  have h1: "?run = (fst ?run, snd ?run)" by simp
  have tk: "token tokenless_service = Undefined" by (simp add: tokenless_service_def)
  then have h2: "token tokenless_service = Undefined \<or> token tokenless_service = Null" by simp
  have st: "statusCode_of (VErr forbidden) = Some 403" by (simp add: forbidden_def)
  have a1: "\<exists>e. ?srv [] (snd ?run ! 0) = Inl e \<and>
      (statusCode_of e = Some 401 \<or> statusCode_of e = Some 403)"
    using st by (simp add: scripted_def)
  have a2: "\<exists>e. ?srv [snd ?run ! 0] (snd ?run ! 1) = Inl e \<and>
      (statusCode_of e = Some 401 \<or> statusCode_of e = Some 403)"
    using st by (simp add: scripted_def)
  have a3: "?srv [snd ?run ! 0, snd ?run ! 1] (snd ?run ! 2) = Inr (JStr ''removed'')"
    by (simp add: scripted_def)
  have o0: "roptions (snd ?run ! 0) = None" by (simp add: run_simps)
  from absent_token_attempts_still_issued [OF h1 h2] a1 a2 a3
  have r: "length (snd ?run) = 3 \<and>
     snd ?run ! 1 = (snd ?run ! 0)\<lparr>roptions :=
        Some \<lparr>params = None, headers = Some [(''X-API-Token'', [])],
          responseType = None\<rparr>\<rparr> \<and>
     snd ?run ! 2 = (snd ?run ! 0)\<lparr>roptions :=
        Some \<lparr>params = None, headers = Some [(''authorization'', ''Bearer undefined'')],
          responseType = None\<rparr>\<rparr> \<and>
     fst ?run = Inr (JStr ''removed'')"
    using tk by auto
  then have "map roptions (snd ?run) =
      [roptions (snd ?run ! 0), roptions (snd ?run ! 1), roptions (snd ?run ! 2)]"
    by (simp add: map_three)
  with r o0 tk show ?thesis by simp
qed

text \<open>
  Claim C10. When the upload receives a response whose \<^verbatim>\<open>ok\<close> flag is true and
  whose body fails to parse as JSON, the parse error (an error that is not a VikunjaError,
  with a non-empty message) is caught by the outer handler and the caller receives a plain
  VikunjaError with status code 0 that carries the parse error's message.
\<close>

theorem upload_parse_failure_is_status_0:
  assumes "snd (uploadTaskAttachment buildUrl fetch svc taskId formData) = [c]"
    and "fetch c = Inr resp"
    and "ok resp"
    and "json_body resp = Inl (JsError msg)"
    and "msg \<noteq> []"
  shows "fst (uploadTaskAttachment buildUrl fetch svc taskId formData) =
     Inl (VErr \<lparr>cls = VikunjaError, message = msg,
       endpoint = ''/tasks/'' @ show_nat taskId @ ''/attachments'', emethod = ''PUT'',
       statusCode = 0, response = Some (JObj [(''message'', JStr msg)])\<rparr>)"
  using assms
  by (auto simp add: uploadTaskAttachment_def Let_def or_network_error_def)

text \<open>The theorem at a concrete upload.\<close>

theorem upload_parse_failure_is_status_0_witness:
  "fst (uploadTaskAttachment (\<lambda>p. baseUrl mock_service @ p) html_fetch mock_service 7 ''file'') =
   Inl (VErr \<lparr>cls = VikunjaError, message = ''Unexpected token < in JSON at position 0'',
     endpoint = ''/tasks/7/attachments'', emethod = ''PUT'', statusCode = 0,
     response = Some (JObj [(''message'',
       JStr ''Unexpected token < in JSON at position 0'')])\<rparr>)"
proof -
  let ?resp = "\<lparr>ok = True, status = 200,
       json_body = Inl (JsError ''Unexpected token < in JSON at position 0'')\<rparr>"
  let ?c = "\<lparr>furl = ''https://vikunja.example.com/api/v1/tasks/7/attachments'', fmethod = PUT,
      fheaders = [(''Authorization'', ''Bearer mock-token'')], fbody = ''file''\<rparr>"
  have h1: "snd (uploadTaskAttachment (\<lambda>p. baseUrl mock_service @ p) html_fetch mock_service 7
      ''file'') = [?c]"
    by (simp add: uploadTaskAttachment_def mock_service_def show_nat_digit Let_def)
  have h2: "html_fetch ?c = Inr ?resp" by (simp add: html_fetch_def)
  have h3: "ok ?resp" by simp
  have h4: "json_body ?resp = Inl (JsError ''Unexpected token < in JSON at position 0'')"
    by simp
  have h5: "''Unexpected token < in JSON at position 0'' \<noteq> []" by simp
  from upload_parse_failure_is_status_0 [OF h1 h2 h3 h4 h5]
  show ?thesis by (simp add: show_nat_digit)
qed

end
